theory Spec2Isabelle
  imports Main
begin

section \<open>Data model (main.go, lines 38-45 and 227-231)\<close>

text \<open>
  The struct \<open>Song\<close> is at once the table row, the JSON request body and the target of the
  query binding. Go strings are byte sequences, so \<open>string\<close> (a list of 8-bit characters)
  is the model, and \<open>len\<close> is \<open>length\<close>. Go's \<open>int\<close> is the 64-bit signed integer: it
  is modelled by \<open>int\<close> with the wrap-around of the arithmetic written out (\<open>wrap64\<close>).
\<close>

record Song =
  ID :: int
  Group :: string
  SongName :: string
  ReleaseDate :: string
  Text :: string
  Link :: string

text \<open>The fields of \<open>SongDetail\<close> carry the prefix \<open>Detail\<close>, since a record cannot
  reuse the field names of \<open>Song\<close> unqualified.\<close>

record SongDetail =
  DetailReleaseDate :: string
  DetailText :: string
  DetailLink :: string

definition zeroSong :: Song where
  "zeroSong = \<lparr>ID = 0, Group = [], SongName = [], ReleaseDate = [], Text = [], Link = []\<rparr>"

definition wrap64 :: "int \<Rightarrow> int" where
  "wrap64 x = (x + 2 ^ 63) mod 2 ^ 64 - 2 ^ 63"

definition min_go :: "int \<Rightarrow> int \<Rightarrow> int" where
  "min_go a b = (if a < b then a else b)"

section \<open>Library calls used by the handlers\<close>

subsection \<open>strconv.Atoi\<close>

text \<open>
  \<open>strconv.Atoi\<close> has two paths. A string of 1 to 18 bytes takes the fast path: an
  optional sign, then a loop that subtracts \<open>'0'\<close> from each byte (wrapping in a byte) and
  returns 0 with a syntax error at the first result above 9. Every other string goes to
  \<open>ParseInt(s, 10, 0)\<close>, whose loop (\<open>ParseUint\<close>) reads the bytes from the left and
  returns at the first event: a byte that is not a decimal digit is a syntax error (value
  0), a digit that makes the unsigned 64-bit accumulator overflow is a range error (value
  \<open>2^64 - 1\<close>), without a look at the bytes that follow. \<open>ParseInt\<close> turns a range error,
  and a value outside the signed range, into the nearest signed bound with a range error.
\<close>

datatype num_error = ErrSyntax | ErrRange

fun digits_value :: "nat \<Rightarrow> string \<Rightarrow> nat option" where
  "digits_value n [] = Some n"
| "digits_value n (ch # cs) =
     (let d = (of_char ch + 256 - 48) mod 256 :: nat
      in if d > 9 then None else digits_value (n * 10 + d) cs)"

datatype uint_result = UintOk nat | UintSyntax | UintRange

fun ParseUint_loop :: "nat \<Rightarrow> string \<Rightarrow> uint_result" where
  "ParseUint_loop n [] = UintOk n"
| "ParseUint_loop n (c # cs) =
     (if (of_char c :: nat) < 48 then UintSyntax
      else if 57 < (of_char c :: nat) then UintSyntax
      else if n \<ge> (2 ^ 64 - 1) div 10 + 1 then UintRange
      else (let n1 = n * 10 + (of_char c - 48)
            in if n1 > 2 ^ 64 - 1 then UintRange else ParseUint_loop n1 cs))"

definition ParseUint :: "string \<Rightarrow> uint_result" where
  "ParseUint s = (if s = [] then UintSyntax else ParseUint_loop 0 s)"

definition signed_of :: "bool \<Rightarrow> nat \<Rightarrow> int \<times> num_error option" where
  "signed_of neg un =
     (if \<not> neg \<and> int un \<ge> 2 ^ 63 then (2 ^ 63 - 1, Some ErrRange)
      else if neg \<and> int un > 2 ^ 63 then (- (2 ^ 63), Some ErrRange)
      else (if neg then - int un else int un, None))"

definition ParseInt :: "string \<Rightarrow> int \<times> num_error option" where
  "ParseInt s =
     (case s of
        [] \<Rightarrow> (0, Some ErrSyntax)
      | c # cs \<Rightarrow>
          (let neg = (c = CHR ''-'');
               body = (if c = CHR ''+'' then cs else if c = CHR ''-'' then cs else s)
           in case ParseUint body of
                UintSyntax \<Rightarrow> (0, Some ErrSyntax)
              | UintRange \<Rightarrow> signed_of neg (2 ^ 64 - 1)
              | UintOk un \<Rightarrow> signed_of neg un))"

definition Atoi :: "string \<Rightarrow> int \<times> num_error option" where
  "Atoi s =
     (case s of
        [] \<Rightarrow> ParseInt s
      | c # cs \<Rightarrow>
          if length s < 19
          then (let body = (if c = CHR ''-'' \<or> c = CHR ''+'' then cs else s)
                in if body = [] then (0, Some ErrSyntax)
                   else (case digits_value 0 body of
                           None \<Rightarrow> (0, Some ErrSyntax)
                         | Some n \<Rightarrow> (if c = CHR ''-'' then - int n else int n, None)))
          else ParseInt s)"

subsection \<open>gin: query parameters and binding\<close>

text \<open>
  \<open>c.DefaultQuery(key, def)\<close> returns the value of the query parameter when the key is
  present (also when the value is empty) and \<open>def\<close> otherwise. The parameter is given as
  \<open>Some value\<close> when present and \<open>None\<close> when absent.
\<close>

definition DefaultQuery :: "string option \<Rightarrow> string \<Rightarrow> string" where
  "DefaultQuery param def = (case param of Some v \<Rightarrow> v | None \<Rightarrow> def)"

text \<open>
  The binding calls (\<open>ShouldBindQuery\<close>, \<open>ShouldBindJSON\<close>, \<open>ShouldBindBodyWithJSON\<close>)
  first decode the query string or the JSON body into the struct (a field that is not
  supplied keeps its zero value; a value of the wrong type or malformed JSON is an error),
  then validate the struct against its \<open>binding\<close> tags. The decoded input is \<open>Fields s\<close>, an
  undecodable one is \<open>Malformed\<close>. The tags of \<open>Song\<close> are \<open>binding:"required"\<close> on
  \<open>Group\<close> and \<open>SongName\<close>: the validator rejects the zero value, the empty string.
\<close>

datatype payload = Malformed | Fields Song

datatype bind_error = DecodeError | ValidationError

definition validate :: "Song \<Rightarrow> bind_error + Song" where
  "validate s = (if Group s = [] then Inl ValidationError
                 else if SongName s = [] then Inl ValidationError
                 else Inr s)"

definition ShouldBindQuery :: "payload \<Rightarrow> bind_error + Song" where
  "ShouldBindQuery p = (case p of Malformed \<Rightarrow> Inl DecodeError | Fields s \<Rightarrow> validate s)"

definition ShouldBindJSON :: "payload \<Rightarrow> bind_error + Song" where
  "ShouldBindJSON p = (case p of Malformed \<Rightarrow> Inl DecodeError | Fields s \<Rightarrow> validate s)"

definition ShouldBindBodyWithJSON :: "payload \<Rightarrow> bind_error + Song" where
  "ShouldBindBodyWithJSON p = ShouldBindJSON p"

subsection \<open>strings.Split and strings.Join\<close>

text \<open>
  \<open>strings.Split(s, sep)\<close> for a separator that is not empty: the pieces of \<open>s\<close> between
  the occurrences of \<open>sep\<close>, found from the left and not overlapping. The separator is
  given by its first byte and the rest, so that the empty separator (which \<open>strings.Split\<close>
  treats apart, and which the handler never passes) is not an input of the model.
\<close>

fun split_from :: "string \<Rightarrow> nat \<Rightarrow> string \<Rightarrow> string \<Rightarrow> string list" where
  "split_from sep skip cur [] = [rev cur]"
| "split_from sep skip cur (c # cs) =
     (if skip > 0 then split_from sep (skip - 1) cur cs
      else if take (length sep) (c # cs) = sep
           then rev cur # split_from sep (length sep - 1) [] cs
           else split_from sep 0 (c # cur) cs)"

definition Split :: "string \<Rightarrow> char \<Rightarrow> string \<Rightarrow> string list" where
  "Split s sep0 sep_rest = split_from (sep0 # sep_rest) 0 [] s"

fun Join :: "string list \<Rightarrow> string \<Rightarrow> string" where
  "Join [] sep = []"
| "Join [x] sep = x"
| "Join (x # y # ys) sep = x @ sep @ Join (y # ys) sep"

subsection \<open>The enrichment call (http.Get and the JSON decoder)\<close>

text \<open>
  The outcome of \<open>http.Get\<close> on the info URL: a transport error, or a response with its
  status code and the result of decoding its body into \<open>SongDetail\<close> (\<open>None\<close> when the
  decoder fails). The URL is determined by the escaped group and song name, so the remote
  service is a function of the two.
\<close>

datatype http_result = TransportError | HttpResponse int "SongDetail option"

type_synonym info_service = "string \<Rightarrow> string \<Rightarrow> http_result"

section \<open>The store (GORM on PostgreSQL)\<close>

text \<open>
  The table is the list of its rows in the order the store returns them without
  \<open>ORDER BY\<close>; \<open>serial\<close> is the last value the id sequence handed out. \<open>link\<close> is the
  state of the connection seen by one request: \<open>Unreachable\<close> makes \<open>GetDB\<close> end the
  process (\<open>log.Fatal\<close>), \<open>Failing\<close> makes the statement return an error, \<open>Healthy\<close> runs it.
\<close>

record store =
  rows :: "Song list"
  serial :: int

datatype link = Unreachable | Failing | Healthy

datatype store_error = ErrRecordNotFound | ErrDuplicateKey | ErrStore

datatype val = IntV int | StrV string

definition column :: "string \<Rightarrow> Song \<Rightarrow> val option" where
  "column name r =
     (if name = ''id'' then Some (IntV (ID r))
      else if name = ''group'' then Some (StrV (Group r))
      else if name = ''song_name'' then Some (StrV (SongName r))
      else if name = ''release_date'' then Some (StrV (ReleaseDate r))
      else if name = ''text'' then Some (StrV (Text r))
      else if name = ''link'' then Some (StrV (Link r))
      else None)"

text \<open>\<open>Where(m)\<close> with a map adds one equality per entry of the map; an empty map adds
  none.\<close>

definition row_matches :: "(string \<times> val) list \<Rightarrow> Song \<Rightarrow> bool" where
  "row_matches wh r = list_all (\<lambda>(name, v). column name r = Some v) wh"

text \<open>GORM writes \<open>OFFSET n\<close> only for \<open>n > 0\<close> and \<open>LIMIT n\<close> only for \<open>n \<ge> 0\<close>.\<close>

definition apply_offset :: "int \<Rightarrow> 'a list \<Rightarrow> 'a list" where
  "apply_offset n xs = (if n > 0 then drop (nat n) xs else xs)"

definition apply_limit :: "int \<Rightarrow> 'a list \<Rightarrow> 'a list" where
  "apply_limit n xs = (if n \<ge> 0 then take (nat n) xs else xs)"

definition Find :: "link \<Rightarrow> (string \<times> val) list \<Rightarrow> int \<Rightarrow> int \<Rightarrow> store \<Rightarrow> store_error + Song list" where
  "Find l wh offset limit st =
     (if l = Healthy
      then Inr (apply_limit limit (apply_offset offset (filter (row_matches wh) (rows st))))
      else Inl ErrStore)"

definition First :: "link \<Rightarrow> int \<Rightarrow> store \<Rightarrow> store_error + Song" where
  "First l k st =
     (if l = Healthy
      then (case find (\<lambda>r. ID r = k) (rows st) of
              None \<Rightarrow> Inl ErrRecordNotFound
            | Some r \<Rightarrow> Inr r)
      else Inl ErrStore)"

text \<open>
  \<open>Create\<close> inserts the struct. GORM leaves a zero primary key out of the \<open>INSERT\<close>, so
  that the sequence assigns it, and writes the assigned id back into the struct; a
  non-zero primary key is part of the \<open>INSERT\<close> as it is. The primary key is unique: an
  insert of an id the table holds fails.
\<close>

definition Create :: "link \<Rightarrow> Song \<Rightarrow> store \<Rightarrow> (store_error + Song) \<times> store" where
  "Create l s st =
     (if l \<noteq> Healthy then (Inl ErrStore, st)
      else if ID s \<noteq> 0
      then (if ID s \<in> set (map ID (rows st)) then (Inl ErrDuplicateKey, st)
            else (Inr s, st\<lparr>rows := rows st @ [s]\<rparr>))
      else (let n = serial st + 1; s' = s\<lparr>ID := n\<rparr>; st1 = st\<lparr>serial := n\<rparr>
            in if n \<in> set (map ID (rows st)) then (Inl ErrDuplicateKey, st1)
               else (Inr s', st1\<lparr>rows := rows st @ [s']\<rparr>)))"

text \<open>
  \<open>Model(&Song{}).Where("id = ?", k).Updates(&p)\<close> with a struct \<open>p\<close> assigns the
  non-zero fields of \<open>p\<close> (the primary key among them, the model being another value than
  \<open>p\<close>) in the rows whose id is \<open>k\<close>, and reports the number of such rows. With no
  non-zero field there is nothing to assign and no row is affected.
\<close>

definition patch_row :: "Song \<Rightarrow> Song \<Rightarrow> Song" where
  "patch_row p r =
     \<lparr>ID = (if ID p \<noteq> 0 then ID p else ID r),
      Group = (if Group p \<noteq> [] then Group p else Group r),
      SongName = (if SongName p \<noteq> [] then SongName p else SongName r),
      ReleaseDate = (if ReleaseDate p \<noteq> [] then ReleaseDate p else ReleaseDate r),
      Text = (if Text p \<noteq> [] then Text p else Text r),
      Link = (if Link p \<noteq> [] then Link p else Link r)\<rparr>"

definition Updates :: "link \<Rightarrow> int \<Rightarrow> Song \<Rightarrow> store \<Rightarrow> (store_error + nat) \<times> store" where
  "Updates l k p st =
     (if l \<noteq> Healthy then (Inl ErrStore, st)
      else if p = zeroSong then (Inr 0, st)
      else (let new = map (\<lambda>r. if ID r = k then patch_row p r else r) (rows st);
                n = length (filter (\<lambda>r. ID r = k) (rows st))
            in if distinct (map ID (rows st)) \<and> \<not> distinct (map ID new)
               then (Inl ErrDuplicateKey, st)
               else (Inr n, st\<lparr>rows := new\<rparr>)))"

section \<open>Request handlers\<close>

datatype body =
    BindingError bind_error
  | Error string
  | SongList "Song list"
  | SongObject Song
  | TextObject string

datatype outcome = Response int body | Panic | Fatal

text \<open>A request to \<open>GET /songs\<close>: the raw \<open>page\<close> and \<open>limit\<close> parameters and the filter
  fields decoded from the query string.\<close>

record list_request =
  page_param :: "string option"
  limit_param :: "string option"
  filter_fields :: payload

definition page_of :: "string option \<Rightarrow> int" where
  "page_of p = fst (Atoi (DefaultQuery p ''1''))"

definition limit_of :: "string option \<Rightarrow> int" where
  "limit_of p = fst (Atoi (DefaultQuery p ''10''))"

definition offset_of :: "string option \<Rightarrow> string option \<Rightarrow> int" where
  "offset_of p l = wrap64 (wrap64 (page_of p - 1) * limit_of l)"

text \<open>The conditions chained onto \<open>query\<close> (lines 142-156): the SQL fragment and its
  argument. The statement that runs (line 158) is built from \<open>db.Model\<close> again, with the
  map \<open>where\<close>, which is empty; \<open>query\<close> is not used.\<close>

datatype cond = Cond string string

definition filter_query :: "Song \<Rightarrow> cond list" where
  "filter_query song =
     (if Group song \<noteq> [] then [Cond ''group = ?'' (Group song)] else []) @
     (if SongName song \<noteq> [] then [Cond ''song_name = ?'' (SongName song)] else []) @
     (if ReleaseDate song \<noteq> [] then [Cond ''release_date = ?'' (ReleaseDate song)] else []) @
     (if Text song \<noteq> [] then [Cond ''text LIKE ?'' (''%'' @ Text song @ ''%'')] else []) @
     (if Link song \<noteq> [] then [Cond ''link = ?'' (Link song)] else [])"

definition GetSongs :: "list_request \<Rightarrow> link \<Rightarrow> store \<Rightarrow> outcome \<times> store" where
  "GetSongs req l st =
     (let page = page_of (page_param req);
          limit = limit_of (limit_param req);
          offset = offset_of (page_param req) (limit_param req)
      in case ShouldBindQuery (filter_fields req) of
           Inl e \<Rightarrow> (Response 400 (BindingError e), st)
         | Inr song \<Rightarrow>
             if l = Unreachable then (Fatal, st)
             else (let query = filter_query song;
                       wh = []
                   in case Find l wh offset limit st of
                        Inl e \<Rightarrow> (Response 500 (Error ''Failed to fetch songs''), st)
                      | Inr songs \<Rightarrow>
                          if length songs = 0
                          then (Response 404 (Error ''No songs found''), st)
                          else (Response 200 (SongList songs), st)))"

definition AddSong :: "payload \<Rightarrow> info_service \<Rightarrow> link \<Rightarrow> store \<Rightarrow> outcome \<times> store" where
  "AddSong reqBody info l st =
     (case ShouldBindBodyWithJSON reqBody of
        Inl e \<Rightarrow> (Response 400 (BindingError e), st)
      | Inr newSong \<Rightarrow>
          (case info (Group newSong) (SongName newSong) of
             TransportError \<Rightarrow> (Response 500 (Error ''Failed to fetch songs''), st)
           | HttpResponse code decoded \<Rightarrow>
               if code \<noteq> 200 then (Response 500 (Error ''Failed to add song''), st)
               else (case decoded of
                       None \<Rightarrow> (Response 500 (Error ''Failed to fetch song info''), st)
                     | Some songDetail \<Rightarrow>
                         (let verses = Split (DetailText songDetail) (CHR 0x0A) [CHR 0x0A];
                              s1 = newSong\<lparr>Text := Join verses [CHR 0x0A, CHR 0x0A]\<rparr>;
                              s2 = s1\<lparr>ReleaseDate := DetailReleaseDate songDetail\<rparr>;
                              s3 = s2\<lparr>Text := DetailText songDetail\<rparr>;
                              s4 = s3\<lparr>Link := DetailLink songDetail\<rparr>
                          in if l = Unreachable then (Fatal, st)
                             else (case Create l s4 st of
                                     (Inl e, st') \<Rightarrow>
                                       (Response 500 (Error ''Failed to add song''), st')
                                   | (Inr stored, st') \<Rightarrow>
                                       (Response 201 (SongObject stored), st'))))))"

definition UpdateSong :: "string \<Rightarrow> payload \<Rightarrow> link \<Rightarrow> store \<Rightarrow> outcome \<times> store" where
  "UpdateSong idParam reqBody l st =
     (case Atoi idParam of
        (k, Some err) \<Rightarrow> (Response 400 (Error ''Invalid song ID''), st)
      | (k, None) \<Rightarrow>
          (case ShouldBindJSON reqBody of
             Inl e \<Rightarrow> (Response 400 (BindingError e), st)
           | Inr song \<Rightarrow>
               if l = Unreachable then (Fatal, st)
               else (case Updates l k song st of
                       (Inl e, st') \<Rightarrow> (Response 500 (Error ''Failed to update song''), st')
                     | (Inr n, st') \<Rightarrow>
                         if n = 0 then (Response 404 (Error ''Song not found''), st')
                         else (Response 200 (SongObject song), st'))))"

text \<open>The slice expression \<open>s[lo:hi]\<close> on a string panics unless
  \<open>0 \<le> lo \<le> hi \<le> len(s)\<close>.\<close>

definition slice :: "string \<Rightarrow> int \<Rightarrow> int \<Rightarrow> string option" where
  "slice s lo hi =
     (if 0 \<le> lo \<and> lo \<le> hi \<and> hi \<le> int (length s)
      then Some (take (nat (hi - lo)) (drop (nat lo) s))
      else None)"

definition GetSongText ::
  "string \<Rightarrow> string option \<Rightarrow> string option \<Rightarrow> link \<Rightarrow> store \<Rightarrow> outcome \<times> store" where
  "GetSongText idParam pageParam limitParam l st =
     (case Atoi idParam of
        (k, Some err) \<Rightarrow> (Response 400 (Error ''Invalid song ID''), st)
      | (k, None) \<Rightarrow>
          if l = Unreachable then (Fatal, st)
          else (case First l k st of
                  Inl e \<Rightarrow>
                    if e = ErrRecordNotFound
                    then (Response 404 (Error ''Song not found''), st)
                    else (Response 500 (Error ''Failed to fetch song''), st)
                | Inr song \<Rightarrow>
                    (let page = page_of pageParam;
                         limit = limit_of limitParam;
                         offset = offset_of pageParam limitParam;
                         end = min_go (wrap64 (offset + limit)) (int (length (Text song)))
                     in case slice (Text song) offset end of
                          None \<Rightarrow> (Panic, st)
                        | Some text \<Rightarrow> (Response 200 (TextObject text), st))))"

section \<open>Vocabulary of the properties\<close>

text \<open>An enrichment call has failed when the transport failed, the status is not 200, or
  the body could not be decoded.\<close>

definition enrichment_failed :: "http_result \<Rightarrow> bool" where
  "enrichment_failed r =
     (case r of
        TransportError \<Rightarrow> True
      | HttpResponse code decoded \<Rightarrow> code \<noteq> 200 \<or> decoded = None)"

text \<open>A numeric parameter value: an optional sign and at least one decimal digit, all of
  it digits. This is stated on the characters, independently of the loop of \<open>Atoi\<close>.\<close>

definition is_digit :: "char \<Rightarrow> bool" where
  "is_digit c = (48 \<le> (of_char c :: nat) \<and> (of_char c :: nat) \<le> 57)"

definition numeric :: "string \<Rightarrow> bool" where
  "numeric s =
     (case s of
        [] \<Rightarrow> False
      | c # cs \<Rightarrow>
          (if c = CHR ''-'' \<or> c = CHR ''+'' then cs \<noteq> [] \<and> list_all is_digit cs
           else list_all is_digit s))"



subsection \<open>Concrete data for the evaluations\<close>

definition song_a :: Song where
  "song_a = \<lparr>ID = 1, Group = ''A'', SongName = ''s1'', ReleaseDate = ''2001'',
              Text = ''0123456789'', Link = ''l1''\<rparr>"

definition song_b :: Song where
  "song_b = \<lparr>ID = 2, Group = ''B'', SongName = ''s2'', ReleaseDate = ''2002'',
              Text = ''lyrics'', Link = ''l2''\<rparr>"

definition two_songs :: store where
  "two_songs = \<lparr>rows = [song_a, song_b], serial = 2\<rparr>"

definition no_songs :: store where
  "no_songs = \<lparr>rows = [], serial = 0\<rparr>"

definition muse_request :: Song where
  "muse_request = \<lparr>ID = 0, Group = ''Muse'', SongName = ''Uprising'', ReleaseDate = ''1999'',
                    Text = ''mine'', Link = ''http://me''\<rparr>"

definition muse_detail :: SongDetail where
  "muse_detail = \<lparr>DetailReleaseDate = ''2009'', DetailText = ''p1'', DetailLink = ''http://x''\<rparr>"

definition info_ok :: info_service where
  "info_ok g s = HttpResponse 200 (Some muse_detail)"

section \<open>Parsing of numbers\<close>

lemma byte_minus_zero:
  fixes n :: nat
  assumes "n < 256"
  shows "(9 < (n + 256 - 48) mod 256) = (\<not> (48 \<le> n \<and> n \<le> 57))"
proof (cases "48 \<le> n")
  case True
  define m where "m = n - 48"
  have n: "n = m + 48" using True by (simp add: m_def)
  have m: "m < 256" using assms by (simp add: m_def)
  have "n + 256 - 48 = m + 256" by (simp add: n)
  then have "(n + 256 - 48) mod 256 = m" using m by (simp only: mod_add_self2 mod_less)
  moreover have "(9 < m) = (\<not> (48 \<le> n \<and> n \<le> 57))" unfolding n by arith
  ultimately show ?thesis by (simp only:)
next
  case False
  then have "n + 256 - 48 < 256" by arith
  then have "(n + 256 - 48) mod 256 = n + 256 - 48" by (rule mod_less)
  moreover have "9 < n + 256 - 48" by arith
  ultimately show ?thesis using False by (simp only:) simp
qed

lemma digit_step: "((of_char c + 256 - 48) mod 256 :: nat) > 9 \<longleftrightarrow> \<not> is_digit c"
proof -
  have "(of_char c :: nat) < 256" by simp
  then show ?thesis unfolding is_digit_def by (rule byte_minus_zero)
qed

lemma digits_value_None: "digits_value n cs = None \<longleftrightarrow> \<not> list_all is_digit cs"
proof (induction cs arbitrary: n)
  case Nil
  show ?case by simp
next
  case (Cons c cs)
  show ?case
  proof (cases "is_digit c")
    case True
    then have "\<not> ((of_char c + 256 - 48) mod 256 :: nat) > 9" using digit_step by blast
    then show ?thesis using True Cons.IH by (simp add: Let_def del: One_nat_def)
  next
    case False
    then have "((of_char c + 256 - 48) mod 256 :: nat) > 9" using digit_step by blast
    then show ?thesis using False by (simp add: Let_def)
  qed
qed

lemma Atoi_short_non_numeric:
  assumes "\<not> numeric s" and "length s < 19"
  shows "Atoi s = (0, Some ErrSyntax)"
proof (cases s)
  case Nil
  then show ?thesis by (simp add: Atoi_def ParseInt_def)
next
  case (Cons c cs)
  show ?thesis
  proof (cases "c = CHR ''-'' \<or> c = CHR ''+''")
    case True
    with assms(1) Cons have "cs = [] \<or> digits_value 0 cs = None"
      by (simp add: numeric_def digits_value_None)
    with True Cons assms(2) show ?thesis
      by (auto simp add: Atoi_def Let_def simp del: digits_value.simps)
  next
    case False
    with assms(1) Cons have "digits_value 0 (c # cs) = None"
      by (simp only: digits_value_None) (simp add: numeric_def)
    with False Cons assms(2) show ?thesis
      by (simp add: Atoi_def Let_def del: digits_value.simps)
  qed
qed

lemma ParseUint_loop_not_ok:
  "\<not> list_all is_digit cs \<Longrightarrow> ParseUint_loop n cs \<noteq> UintOk m"
proof (induction cs arbitrary: n)
  case Nil
  then show ?case by simp
next
  case (Cons c cs)
  show ?case
  proof (cases "is_digit c")
    case True
    with Cons.prems have "\<not> list_all is_digit cs" by simp
    then have "\<And>k. ParseUint_loop k cs \<noteq> UintOk m" by (rule Cons.IH)
    then show ?thesis by (simp add: Let_def)
  next
    case False
    then have "(of_char c :: nat) < 48 \<or> 57 < (of_char c :: nat)"
      by (auto simp: is_digit_def)
    then show ?thesis by auto
  qed
qed

lemma ParseInt_non_numeric:
  assumes "\<not> numeric s"
  shows "fst (ParseInt s) \<in> {0, 2 ^ 63 - 1, - (2 ^ 63)} \<and> snd (ParseInt s) \<noteq> None"
proof (cases s)
  case Nil
  then show ?thesis by (simp add: ParseInt_def)
next
  case (Cons c cs)
  define body where "body = (if c = CHR ''+'' then cs else if c = CHR ''-'' then cs else s)"
  have nb: "body = [] \<or> \<not> list_all is_digit body"
    using assms Cons by (auto simp: numeric_def body_def split: if_splits)
  have "ParseUint body = UintSyntax \<or> ParseUint body = UintRange"
  proof (cases "body = []")
    case True
    then show ?thesis by (simp add: ParseUint_def)
  next
    case False
    with nb have nd: "\<not> list_all is_digit body" by simp
    have no: "ParseUint_loop 0 body \<noteq> UintOk m" for m
      using nd by (rule ParseUint_loop_not_ok)
    show ?thesis using False no by (cases "ParseUint_loop 0 body") (auto simp add: ParseUint_def)
  qed
  then show ?thesis
    unfolding ParseInt_def Cons list.case Let_def body_def [symmetric, unfolded Cons]
    by (auto simp: signed_of_def)
qed

lemma Atoi_long: "\<not> length s < 19 \<Longrightarrow> Atoi s = ParseInt s"
  by (cases s) (simp_all add: Atoi_def)

lemma Atoi_non_numeric:
  assumes "\<not> numeric s"
  shows "fst (Atoi s) \<in> {0, 2 ^ 63 - 1, - (2 ^ 63)} \<and> snd (Atoi s) \<noteq> None"
proof (cases "length s < 19")
  case True
  with assms show ?thesis by (simp add: Atoi_short_non_numeric)
next
  case False
  then have "Atoi s = ParseInt s" by (rule Atoi_long)
  then show ?thesis using ParseInt_non_numeric [OF assms] by simp
qed

lemma Atoi_overflow_before_bad_byte:
  "Atoi ''99999999999999999999x'' = (2 ^ 63 - 1, Some ErrRange)"
  by (simp add: Atoi_def ParseInt_def ParseUint_def signed_of_def)

lemma Atoi_bad_byte_first:
  "Atoi ''9223372036854775808x'' = (0, Some ErrSyntax)"
  by (simp add: Atoi_def ParseInt_def ParseUint_def signed_of_def)

lemma Atoi_examples:
  "Atoi ''9223372036854775808'' = (2 ^ 63 - 1, Some ErrRange)"
  "Atoi ''-9223372036854775808'' = (- (2 ^ 63), None)"
  "Atoi ''-12'' = (- 12, None)" "Atoi ''+'' = (0, Some ErrSyntax)" "Atoi '''' = (0, Some ErrSyntax)"
  by (simp_all add: Atoi_def ParseInt_def ParseUint_def signed_of_def)

lemma page_absent: "page_of None = 1"
  by (simp add: page_of_def DefaultQuery_def Atoi_def)

lemma limit_absent: "limit_of None = 10"
  by (simp add: limit_of_def DefaultQuery_def Atoi_def)

lemma offset_absent: "offset_of None None = 0"
  by (simp add: offset_of_def page_absent limit_absent wrap64_def)

lemma not_numeric_abc: "\<not> numeric ''abc''"
  by (simp add: numeric_def is_digit_def)

lemma page_short: "\<not> numeric s \<Longrightarrow> length s < 19 \<Longrightarrow> page_of (Some s) = 0"
  by (simp add: page_of_def DefaultQuery_def Atoi_short_non_numeric)

lemma limit_short: "\<not> numeric s \<Longrightarrow> length s < 19 \<Longrightarrow> limit_of (Some s) = 0"
  by (simp add: limit_of_def DefaultQuery_def Atoi_short_non_numeric)

lemma page_zero: "page_of (Some ''0'') = 0"
  by (simp add: page_of_def DefaultQuery_def Atoi_def)

lemma limit_zero: "limit_of (Some ''0'') = 0"
  by (simp add: limit_of_def DefaultQuery_def Atoi_def)

lemma page_one: "page_of (Some ''1'') = 1"
  by (simp add: page_of_def DefaultQuery_def Atoi_def)

lemma limit_ten: "limit_of (Some ''10'') = 10"
  by (simp add: limit_of_def DefaultQuery_def Atoi_def)

lemma GetSongText_params:
  assumes "page_of p = page_of p'" and "limit_of q = limit_of q'"
  shows "GetSongText k p q l st = GetSongText k p' q' l st"
  unfolding GetSongText_def offset_of_def assms by (rule refl)

lemma GetSongs_params:
  assumes "page_of (page_param r) = page_of (page_param r')"
    and "limit_of (limit_param r) = limit_of (limit_param r')"
    and "filter_fields r = filter_fields r'"
  shows "GetSongs r l st = GetSongs r' l st"
  unfolding GetSongs_def offset_of_def assms by (rule refl)

section \<open>Listing songs\<close>

text \<open>
  C1 (the code falls short of the claim). The claim: the rows returned by \<open>GET /songs\<close> are
  exactly those matching every supplied non-empty filter. The handler chains the filters
  onto \<open>query\<close> and then runs another statement, built with the empty map \<open>where\<close>: the
  filters select nothing. With the two stored songs of groups A and B and the filters
  group = A, song = s1 the response holds both rows, the song of group B among them.
\<close>

theorem GetSongs_ignores_filters:
  "GetSongs \<lparr>page_param = None, limit_param = None,
             filter_fields = Fields (zeroSong\<lparr>Group := ''A'', SongName := ''s1''\<rparr>)\<rparr>
     Healthy two_songs
   = (Response 200 (SongList [song_a, song_b]), two_songs)"
  by (simp add: GetSongs_def ShouldBindQuery_def validate_def zeroSong_def Find_def
      row_matches_def apply_limit_def apply_offset_def offset_absent limit_absent two_songs_def)

text \<open>
  C2 (the code falls short of the claim). The claim: all five filters are optional, and a
  request that supplies none of them is not answered 400. The struct the query is bound
  to carries \<open>binding:"required"\<close> on \<open>Group\<close> and \<open>SongName\<close>, so a request without filters
  fails validation: whatever the page, the limit, the connection and the stored rows, the
  answer is 400.
\<close>

theorem GetSongs_without_filters_rejected:
  "GetSongs \<lparr>page_param = p, limit_param = q, filter_fields = Fields zeroSong\<rparr> l st
   = (Response 400 (BindingError ValidationError), st)"
  by (simp add: GetSongs_def ShouldBindQuery_def validate_def zeroSong_def)

text \<open>
  C7 (the code falls short of the claim). The claim: a list request whose query succeeds
  and matches no row is answered 404, never 200. The statement that runs is not the
  filtered query (see C1, the same defect at line 158): with the filters group = Z,
  song = zz, which no stored row matches, the statement returns both rows and the answer
  is 200 with the two songs.
\<close>

theorem GetSongs_no_match_answers_200:
  "filter (\<lambda>r. Group r = ''Z'' \<and> SongName r = ''zz'') (rows two_songs) = [] \<and>
   GetSongs \<lparr>page_param = None, limit_param = None,
             filter_fields = Fields (zeroSong\<lparr>Group := ''Z'', SongName := ''zz''\<rparr>)\<rparr>
     Healthy two_songs
   = (Response 200 (SongList [song_a, song_b]), two_songs)"
  by (simp add: GetSongs_def ShouldBindQuery_def validate_def zeroSong_def Find_def
      row_matches_def apply_limit_def apply_offset_def offset_absent limit_absent two_songs_def
      song_a_def song_b_def)

text \<open>Only when the statement that does run (no filter, the offset and limit of the
  request) returns no row is the answer 404 (lines 165-168).\<close>

lemma GetSongs_empty_result_is_404:
  assumes "ShouldBindQuery (filter_fields req) = Inr song"
    and "Find l [] (offset_of (page_param req) (limit_param req))
           (limit_of (limit_param req)) st = Inr []"
  shows "GetSongs req l st = (Response 404 (Error ''No songs found''), st)"
  using assms
  by (auto simp: GetSongs_def Find_def Let_def split: if_splits)

section \<open>Page and limit\<close>

text \<open>
  C8 as stated fails: a non-numeric \<open>page\<close> or \<open>limit\<close> does not fall back to the defaults 1
  and 10. \<open>Atoi\<close> returns 0 with the error, the handlers drop the error and go on with 0.
  On the text endpoint, for the text \<open>0123456789\<close>: without parameters the answer is the
  first ten bytes; with \<open>limit=abc\<close> it is the empty text, with \<open>page=abc\<close> the slice
  panics.
\<close>

theorem non_numeric_page_limit_counterexample:
  "GetSongText ''1'' None None Healthy two_songs
     = (Response 200 (TextObject ''0123456789''), two_songs) \<and>
   GetSongText ''1'' None (Some ''abc'') Healthy two_songs
     = (Response 200 (TextObject []), two_songs) \<and>
   GetSongText ''1'' (Some ''abc'') None Healthy two_songs = (Panic, two_songs) \<and>
   page_of (Some ''abc'') = 0 \<and> page_of None = 1 \<and>
   limit_of (Some ''abc'') = 0 \<and> limit_of None = 10"
  by (simp add: GetSongText_def First_def slice_def min_go_def song_a_def song_b_def
      offset_of_def page_of_def limit_of_def DefaultQuery_def Atoi_def wrap64_def two_songs_def)

text \<open>
  C8, amended. On both endpoints an absent \<open>page\<close> is 1 and an absent \<open>limit\<close> is 10 (the
  offset is then 0): the handlers answer as for \<open>page=1\<close> and \<open>limit=10\<close>. A non-numeric
  value is not replaced by the default: the handlers go on with the value \<open>Atoi\<close> returns
  beside its error, which is 0, \<open>2^63 - 1\<close> or \<open>-2^63\<close>, and for a value shorter than 19
  bytes always 0: they answer exactly as for \<open>page=0\<close>, respectively \<open>limit=0\<close>.
\<close>

theorem page_limit_defaults:
  "page_of None = 1 \<and> limit_of None = 10 \<and> offset_of None None = 0 \<and>
   GetSongs (req\<lparr>page_param := None\<rparr>) l st = GetSongs (req\<lparr>page_param := Some ''1''\<rparr>) l st \<and>
   GetSongs (req\<lparr>limit_param := None\<rparr>) l st = GetSongs (req\<lparr>limit_param := Some ''10''\<rparr>) l st \<and>
   GetSongText k None q l st = GetSongText k (Some ''1'') q l st \<and>
   GetSongText k p None l st = GetSongText k p (Some ''10'') l st \<and>
   (\<not> numeric s \<longrightarrow>
      page_of (Some s) \<in> {0, 2 ^ 63 - 1, - (2 ^ 63)} \<and>
      limit_of (Some s) \<in> {0, 2 ^ 63 - 1, - (2 ^ 63)}) \<and>
   (\<not> numeric s \<and> length s < 19 \<longrightarrow>
      page_of (Some s) = 0 \<and> limit_of (Some s) = 0 \<and>
      GetSongs (req\<lparr>page_param := Some s\<rparr>) l st
        = GetSongs (req\<lparr>page_param := Some ''0''\<rparr>) l st \<and>
      GetSongs (req\<lparr>limit_param := Some s\<rparr>) l st
        = GetSongs (req\<lparr>limit_param := Some ''0''\<rparr>) l st \<and>
      GetSongText k (Some s) q l st = GetSongText k (Some ''0'') q l st \<and>
      GetSongText k p (Some s) l st = GetSongText k p (Some ''0'') l st)"
proof -
  have absent:
    "GetSongs (req\<lparr>page_param := None\<rparr>) l st = GetSongs (req\<lparr>page_param := Some ''1''\<rparr>) l st"
    "GetSongs (req\<lparr>limit_param := None\<rparr>) l st = GetSongs (req\<lparr>limit_param := Some ''10''\<rparr>) l st"
    "GetSongText k None q l st = GetSongText k (Some ''1'') q l st"
    "GetSongText k p None l st = GetSongText k p (Some ''10'') l st"
    by (rule GetSongs_params GetSongText_params; simp add: page_absent limit_absent
        page_one limit_ten)+
  have bounds:
    "page_of (Some s) \<in> {0, 2 ^ 63 - 1, - (2 ^ 63)} \<and>
     limit_of (Some s) \<in> {0, 2 ^ 63 - 1, - (2 ^ 63)}" if "\<not> numeric s"
    using Atoi_non_numeric [OF that] by (simp add: page_of_def limit_of_def DefaultQuery_def)
  have short:
    "page_of (Some s) = 0 \<and> limit_of (Some s) = 0 \<and>
     GetSongs (req\<lparr>page_param := Some s\<rparr>) l st
       = GetSongs (req\<lparr>page_param := Some ''0''\<rparr>) l st \<and>
     GetSongs (req\<lparr>limit_param := Some s\<rparr>) l st
       = GetSongs (req\<lparr>limit_param := Some ''0''\<rparr>) l st \<and>
     GetSongText k (Some s) q l st = GetSongText k (Some ''0'') q l st \<and>
     GetSongText k p (Some s) l st = GetSongText k p (Some ''0'') l st"
    if "\<not> numeric s" "length s < 19"
    using that
    by (intro conjI GetSongs_params GetSongText_params)
       (simp_all add: page_short limit_short page_zero limit_zero)
  show ?thesis
    using absent bounds short by (simp only: page_absent limit_absent offset_absent) blast
qed

theorem page_limit_defaults_witness:
  "\<not> numeric ''abc'' \<and> length ''abc'' < 19 \<and>
   page_of (Some ''abc'') = 0 \<and> limit_of (Some ''abc'') = 0 \<and>
   GetSongText ''1'' (Some ''abc'') None Healthy two_songs
     = GetSongText ''1'' (Some ''0'') None Healthy two_songs \<and>
   GetSongText ''1'' None (Some ''abc'') Healthy two_songs
     = GetSongText ''1'' None (Some ''0'') Healthy two_songs \<and>
   GetSongs \<lparr>page_param = Some ''abc'', limit_param = None, filter_fields = Fields muse_request\<rparr>
       Healthy two_songs
     = GetSongs \<lparr>page_param = Some ''0'', limit_param = None, filter_fields = Fields muse_request\<rparr>
       Healthy two_songs \<and>
   GetSongs \<lparr>page_param = None, limit_param = Some ''abc'', filter_fields = Fields muse_request\<rparr>
       Healthy two_songs
     = GetSongs \<lparr>page_param = None, limit_param = Some ''0'', filter_fields = Fields muse_request\<rparr>
       Healthy two_songs"
  using
    page_limit_defaults [of
      "\<lparr>page_param = None, limit_param = None, filter_fields = Fields muse_request\<rparr>"
      Healthy two_songs "''1''" None None "''abc''"]
    not_numeric_abc
  by simp

section \<open>Adding a song\<close>

text \<open>
  C4. When the body of \<open>POST /songs\<close> binds and the enrichment call for its group and song
  fails (transport error, status other than 200, or undecodable body), the handler
  answers 500 and the store is the one before the request, whatever the connection.
\<close>

theorem AddSong_enrichment_failure:
  assumes "ShouldBindBodyWithJSON reqBody = Inr newSong"
    and "enrichment_failed (info (Group newSong) (SongName newSong))"
  shows "\<exists>msg. AddSong reqBody info l st = (Response 500 (Error msg), st)"
  using assms
  by (auto simp: AddSong_def enrichment_failed_def split: http_result.splits)

theorem AddSong_enrichment_failure_witness:
  "(\<exists>msg. AddSong (Fields muse_request) (\<lambda>g s. TransportError) Healthy two_songs
            = (Response 500 (Error msg), two_songs)) \<and>
   (\<exists>msg. AddSong (Fields muse_request) (\<lambda>g s. HttpResponse 503 (Some muse_detail)) Healthy two_songs
            = (Response 500 (Error msg), two_songs)) \<and>
   (\<exists>msg. AddSong (Fields muse_request) (\<lambda>g s. HttpResponse 200 None) Healthy two_songs
            = (Response 500 (Error msg), two_songs))"
proof -
  have b: "ShouldBindBodyWithJSON (Fields muse_request) = Inr muse_request"
    by (simp add: ShouldBindBodyWithJSON_def ShouldBindJSON_def validate_def muse_request_def)
  have f1: "enrichment_failed ((\<lambda>g s. TransportError) (Group muse_request) (SongName muse_request))"
    by (simp add: enrichment_failed_def)
  have f2: "enrichment_failed ((\<lambda>g s. HttpResponse 503 (Some muse_detail))
              (Group muse_request) (SongName muse_request))"
    by (simp add: enrichment_failed_def)
  have f3: "enrichment_failed ((\<lambda>g s. HttpResponse 200 None)
              (Group muse_request) (SongName muse_request))"
    by (simp add: enrichment_failed_def)
  show ?thesis
    using AddSong_enrichment_failure [OF b f1] AddSong_enrichment_failure [OF b f2]
      AddSong_enrichment_failure [OF b f3]
    by blast
qed

lemma AddSong_muse:
  "AddSong (Fields muse_request) info_ok Healthy two_songs
   = (Response 201 (SongObject \<lparr>ID = 3, Group = ''Muse'', SongName = ''Uprising'',
        ReleaseDate = ''2009'', Text = ''p1'', Link = ''http://x''\<rparr>),
      \<lparr>rows = [song_a, song_b, \<lparr>ID = 3, Group = ''Muse'', SongName = ''Uprising'',
        ReleaseDate = ''2009'', Text = ''p1'', Link = ''http://x''\<rparr>], serial = 3\<rparr>)"
  by (simp add: AddSong_def ShouldBindBodyWithJSON_def ShouldBindJSON_def validate_def
      muse_request_def info_ok_def muse_detail_def Create_def two_songs_def song_a_def song_b_def
      Let_def)

text \<open>
  C5. When \<open>POST /songs\<close> succeeds (201), the body bound, the enrichment call answered 200
  with a decodable body, the returned song is the row appended to the table, and its
  release date, text and link are those of the enrichment response, whatever the request
  body gave for them.
\<close>

theorem AddSong_success_fields:
  assumes "AddSong reqBody info l st = (Response 201 b, st')"
  shows "\<exists>newSong d stored.
           ShouldBindBodyWithJSON reqBody = Inr newSong \<and>
           info (Group newSong) (SongName newSong) = HttpResponse 200 (Some d) \<and>
           b = SongObject stored \<and> rows st' = rows st @ [stored] \<and>
           ReleaseDate stored = DetailReleaseDate d \<and>
           Text stored = DetailText d \<and>
           Link stored = DetailLink d"
  using assms
  by (auto simp: AddSong_def Create_def Let_def
      split: sum.splits http_result.splits option.splits if_splits prod.splits)

theorem AddSong_success_fields_witness:
  "\<exists>newSong d stored.
     ShouldBindBodyWithJSON (Fields muse_request) = Inr newSong \<and>
     info_ok (Group newSong) (SongName newSong) = HttpResponse 200 (Some d) \<and>
     SongObject \<lparr>ID = 3, Group = ''Muse'', SongName = ''Uprising'',
        ReleaseDate = ''2009'', Text = ''p1'', Link = ''http://x''\<rparr> = SongObject stored \<and>
     rows \<lparr>rows = [song_a, song_b, \<lparr>ID = 3, Group = ''Muse'', SongName = ''Uprising'',
        ReleaseDate = ''2009'', Text = ''p1'', Link = ''http://x''\<rparr>], serial = 3\<rparr>
       = rows two_songs @ [stored] \<and>
     ReleaseDate stored = DetailReleaseDate d \<and>
     Text stored = DetailText d \<and>
     Link stored = DetailLink d"
  by (rule AddSong_success_fields [OF AddSong_muse])

text \<open>
  C6 as stated fails: an id in the request body is not discarded. The handler hands the
  bound struct to \<open>Create\<close> with its id, and a non-zero primary key is inserted as it is.
  A body with id 7 on a table whose sequence stands at 2 is stored and returned with id 7,
  not with the next value 3 of the sequence, which does not move.
\<close>

theorem AddSong_client_id_counterexample:
  "AddSong (Fields (muse_request\<lparr>ID := 7\<rparr>)) info_ok Healthy two_songs
   = (Response 201 (SongObject \<lparr>ID = 7, Group = ''Muse'', SongName = ''Uprising'',
        ReleaseDate = ''2009'', Text = ''p1'', Link = ''http://x''\<rparr>),
      \<lparr>rows = [song_a, song_b, \<lparr>ID = 7, Group = ''Muse'', SongName = ''Uprising'',
        ReleaseDate = ''2009'', Text = ''p1'', Link = ''http://x''\<rparr>], serial = 2\<rparr>)"
  by (simp add: AddSong_def ShouldBindBodyWithJSON_def ShouldBindJSON_def validate_def
      muse_request_def info_ok_def muse_detail_def Create_def two_songs_def song_a_def song_b_def
      Let_def)

text \<open>
  C6, amended. When \<open>POST /songs\<close> succeeds, the returned song is the row appended to the
  table and its id is one no stored row had. If the body gives no id (or 0), the id is
  assigned by the store: the next value of the sequence. If the body gives a non-zero id,
  that id is the id of the row, and the sequence does not move.
\<close>

theorem AddSong_success_id:
  assumes "reqBody = Fields given"
    and "AddSong reqBody info l st = (Response 201 (SongObject stored), st')"
  shows "rows st' = rows st @ [stored] \<and> ID stored \<notin> set (map ID (rows st)) \<and>
         (if ID given = 0 then ID stored = serial st + 1 \<and> serial st' = serial st + 1
          else ID stored = ID given \<and> serial st' = serial st)"
  using assms
  by (auto simp: AddSong_def Create_def Let_def ShouldBindBodyWithJSON_def ShouldBindJSON_def
      validate_def
      split: sum.splits http_result.splits option.splits if_splits prod.splits)

theorem AddSong_success_id_witness:
  "rows \<lparr>rows = [song_a, song_b, \<lparr>ID = 3, Group = ''Muse'', SongName = ''Uprising'',
        ReleaseDate = ''2009'', Text = ''p1'', Link = ''http://x''\<rparr>], serial = 3\<rparr>
     = rows two_songs @ [\<lparr>ID = 3, Group = ''Muse'', SongName = ''Uprising'',
        ReleaseDate = ''2009'', Text = ''p1'', Link = ''http://x''\<rparr>] \<and>
   (3::int) \<notin> set (map ID (rows two_songs)) \<and> ID muse_request = 0 \<and> 3 = serial two_songs + 1"
  using AddSong_success_id [OF refl AddSong_muse]
  by (simp add: muse_request_def)

section \<open>Updating a song\<close>

text \<open>
  C10. A body of \<open>PUT /songs/:id\<close> that cannot be decoded, or whose group or song is absent
  or empty, is answered 400 whatever the id, the connection and the stored rows, and the
  store is unchanged: the handler returns before it asks for the connection.
\<close>

theorem UpdateSong_requires_group_and_song:
  assumes "reqBody = Malformed \<or> (\<exists>p. reqBody = Fields p \<and> (Group p = [] \<or> SongName p = []))"
  shows "\<exists>b. UpdateSong idParam reqBody l st = (Response 400 b, st)"
  using assms
  by (auto simp: UpdateSong_def ShouldBindJSON_def validate_def split: prod.splits option.splits)

theorem UpdateSong_requires_group_and_song_witness:
  "(\<exists>b. UpdateSong ''1'' (Fields (zeroSong\<lparr>SongName := ''Y''\<rparr>)) Healthy two_songs
          = (Response 400 b, two_songs)) \<and>
   (\<exists>b. UpdateSong ''1'' (Fields (zeroSong\<lparr>Group := ''X''\<rparr>)) Unreachable two_songs
          = (Response 400 b, two_songs))"
proof -
  have h1: "Fields (zeroSong\<lparr>SongName := ''Y''\<rparr>) = Malformed \<or>
            (\<exists>p. Fields (zeroSong\<lparr>SongName := ''Y''\<rparr>) = Fields p \<and> (Group p = [] \<or> SongName p = []))"
    by (simp add: zeroSong_def)
  have h2: "Fields (zeroSong\<lparr>Group := ''X''\<rparr>) = Malformed \<or>
            (\<exists>p. Fields (zeroSong\<lparr>Group := ''X''\<rparr>) = Fields p \<and> (Group p = [] \<or> SongName p = []))"
    by (simp add: zeroSong_def)
  show ?thesis
    using UpdateSong_requires_group_and_song [OF h1] UpdateSong_requires_group_and_song [OF h2]
    by blast
qed



text \<open>The updates that do succeed carry a group and a song name. With nothing else in the
  body they change these two fields of the rows with the id of the path, and nothing
  else.\<close>

lemma UpdateSong_group_song_frame:
  assumes "reqBody = Fields p"
    and "ID p = 0" and "ReleaseDate p = []" and "Text p = []" and "Link p = []"
    and "UpdateSong idParam reqBody l st = (Response 200 b, st')"
  shows "Group p \<noteq> [] \<and> SongName p \<noteq> [] \<and> serial st' = serial st \<and>
         rows st' = map (\<lambda>r. if ID r = fst (Atoi idParam)
                              then r\<lparr>Group := Group p, SongName := SongName p\<rparr> else r) (rows st)"
proof -
  have pr: "patch_row p r = r\<lparr>Group := Group p, SongName := SongName p\<rparr>"
    if "Group p \<noteq> []" "SongName p \<noteq> []" for r
    using that assms(2-5) by (simp add: patch_row_def)
  show ?thesis
    using assms(1,6)
    by (auto simp: UpdateSong_def Updates_def Let_def ShouldBindJSON_def validate_def pr
      split: sum.splits option.splits if_splits prod.splits)
qed

lemma UpdateSong_xy:
  "UpdateSong ''1'' (Fields (zeroSong\<lparr>Group := ''X'', SongName := ''Y''\<rparr>)) Healthy two_songs
   = (Response 200 (SongObject (zeroSong\<lparr>Group := ''X'', SongName := ''Y''\<rparr>)),
      \<lparr>rows = [\<lparr>ID = 1, Group = ''X'', SongName = ''Y'', ReleaseDate = ''2001'',
                Text = ''0123456789'', Link = ''l1''\<rparr>, song_b], serial = 2\<rparr>)"
  by (simp add: UpdateSong_def Atoi_def ShouldBindJSON_def validate_def zeroSong_def Updates_def
      patch_row_def two_songs_def song_a_def song_b_def Let_def)

section \<open>Text of a song, by pages\<close>

text \<open>
  C3 (the code falls short of the claim). The claim: the handler returns the window
  \<open>[offset, min(offset+limit, L))\<close> of the text, and the empty string, without a panic,
  when \<open>offset \<ge> L\<close>. Only the end of the window is clamped to the length. For the text
  \<open>0123456789\<close> (L = 10) and \<open>page=3, limit=10\<close> the offset is 20, the end is
  \<open>min(30, 10) = 10\<close>, and the slice \<open>[20:10]\<close> panics.
\<close>
theorem GetSongText_page_beyond_text_panics:
  "GetSongText ''1'' (Some ''3'') (Some ''10'') Healthy two_songs = (Panic, two_songs)"
  by (simp add: GetSongText_def First_def slice_def min_go_def song_a_def song_b_def
      offset_of_def page_of_def limit_of_def DefaultQuery_def Atoi_def wrap64_def two_songs_def)

end
